theory Spec2Isabelle
  imports Complex_Main
begin

section \<open>JavaScript numbers\<close>

text \<open>
  Every quantity of the loan calculator is a JavaScript Number. A Number is modelled as
  an exact real number or one of the three special values of IEEE arithmetic. Finite
  results are exact: rounding, overflow and underflow are not modelled, and neither is
  the sign of zero (a zero divisor counts as \<open>+0\<close>). The special values are kept
  because the code produces them from finite inputs (a division by zero, the logarithm
  of a negative number) and hands them on as results.
\<close>

datatype jsnum = Num real | PosInf | NegInf | NaN

fun inf_of_sign :: "real \<Rightarrow> jsnum" where
  "inf_of_sign s = (if 0 < s then PosInf else if s < 0 then NegInf else NaN)"

fun sign_of :: "jsnum \<Rightarrow> real" where
  "sign_of (Num a) = sgn a"
| "sign_of PosInf = 1"
| "sign_of NegInf = - 1"
| "sign_of NaN = 0"

fun js_neg :: "jsnum \<Rightarrow> jsnum" where
  "js_neg (Num a) = Num (- a)"
| "js_neg PosInf = NegInf"
| "js_neg NegInf = PosInf"
| "js_neg NaN = NaN"

fun js_add :: "jsnum \<Rightarrow> jsnum \<Rightarrow> jsnum" where
  "js_add NaN y = NaN"
| "js_add x NaN = NaN"
| "js_add (Num a) (Num b) = Num (a + b)"
| "js_add PosInf NegInf = NaN"
| "js_add NegInf PosInf = NaN"
| "js_add PosInf y = PosInf"
| "js_add NegInf y = NegInf"
| "js_add (Num a) y = y"

definition js_sub :: "jsnum \<Rightarrow> jsnum \<Rightarrow> jsnum" where
  "js_sub x y = js_add x (js_neg y)"

fun js_mul :: "jsnum \<Rightarrow> jsnum \<Rightarrow> jsnum" where
  "js_mul NaN y = NaN"
| "js_mul x NaN = NaN"
| "js_mul (Num a) (Num b) = Num (a * b)"
| "js_mul x y = inf_of_sign (sign_of x * sign_of y)"

fun js_div :: "jsnum \<Rightarrow> jsnum \<Rightarrow> jsnum" where
  "js_div NaN y = NaN"
| "js_div x NaN = NaN"
| "js_div (Num a) (Num b) = (if b = 0 then inf_of_sign a else Num (a / b))"
| "js_div (Num a) y = Num 0"
| "js_div x (Num b) = inf_of_sign (sign_of x * (if 0 \<le> b then 1 else - 1))"
| "js_div x y = NaN"

fun js_lt :: "jsnum \<Rightarrow> jsnum \<Rightarrow> bool" where
  "js_lt NaN y = False"
| "js_lt x NaN = False"
| "js_lt (Num a) (Num b) = (a < b)"
| "js_lt PosInf y = False"
| "js_lt x NegInf = False"
| "js_lt x PosInf = True"
| "js_lt NegInf y = True"

fun js_eq :: "jsnum \<Rightarrow> jsnum \<Rightarrow> bool" where
  "js_eq NaN y = False"
| "js_eq x NaN = False"
| "js_eq x y = (x = y)"

definition js_le :: "jsnum \<Rightarrow> jsnum \<Rightarrow> bool" where
  "js_le x y = (js_lt x y \<or> js_eq x y)"

definition js_gt :: "jsnum \<Rightarrow> jsnum \<Rightarrow> bool" where
  "js_gt x y = js_lt y x"

definition js_ge :: "jsnum \<Rightarrow> jsnum \<Rightarrow> bool" where
  "js_ge x y = js_le y x"

fun js_abs :: "jsnum \<Rightarrow> jsnum" where
  "js_abs (Num a) = Num \<bar>a\<bar>"
| "js_abs PosInf = PosInf"
| "js_abs NegInf = PosInf"
| "js_abs NaN = NaN"

text \<open>\<^verbatim>\<open>Math.min\<close> and \<^verbatim>\<open>Math.max\<close> of two arguments: NaN if either is NaN.\<close>

definition js_min :: "jsnum \<Rightarrow> jsnum \<Rightarrow> jsnum" where
  "js_min x y = (if x = NaN \<or> y = NaN then NaN else if js_lt y x then y else x)"

definition js_max :: "jsnum \<Rightarrow> jsnum \<Rightarrow> jsnum" where
  "js_max x y = (if x = NaN \<or> y = NaN then NaN else if js_lt x y then y else x)"

text \<open>\<^verbatim>\<open>Math.log\<close>: the natural logarithm, NaN below zero, \<open>-Infinity\<close> at zero.\<close>

fun js_log :: "jsnum \<Rightarrow> jsnum" where
  "js_log (Num a) = (if a < 0 then NaN else if a = 0 then NegInf else Num (ln a))"
| "js_log PosInf = PosInf"
| "js_log NegInf = NaN"
| "js_log NaN = NaN"

text \<open>
  \<^verbatim>\<open>Math.pow\<close>. A whole exponent is computed by repeated multiplication
  (\<open>powi\<close>), any other exponent of a positive base by \<open>powr\<close>; a negative base
  with a fractional exponent gives NaN.
\<close>

definition whole :: "real \<Rightarrow> bool" where
  "whole b = (of_int \<lfloor>b\<rfloor> = b)"

definition finite_pow :: "real \<Rightarrow> real \<Rightarrow> jsnum" where
  "finite_pow a b =
     (if a = 0 then (if 0 < b then Num 0 else PosInf)
      else if whole b then Num (a powi \<lfloor>b\<rfloor>)
      else if 0 < a then Num (a powr b)
      else NaN)"

fun js_pow :: "jsnum \<Rightarrow> jsnum \<Rightarrow> jsnum" where
  "js_pow x NaN = NaN"
| "js_pow x (Num b) =
     (if b = 0 then Num 1
      else case x of
        NaN \<Rightarrow> NaN
      | PosInf \<Rightarrow> (if 0 < b then PosInf else Num 0)
      | NegInf \<Rightarrow> (if 0 < b then (if whole b \<and> odd \<lfloor>b\<rfloor> then NegInf else PosInf) else Num 0)
      | Num a \<Rightarrow> finite_pow a b)"
| "js_pow x PosInf =
     (case x of
        NaN \<Rightarrow> NaN
      | Num a \<Rightarrow> (if 1 < \<bar>a\<bar> then PosInf else if \<bar>a\<bar> = 1 then NaN else Num 0)
      | _ \<Rightarrow> PosInf)"
| "js_pow x NegInf =
     (case x of
        NaN \<Rightarrow> NaN
      | Num a \<Rightarrow> (if 1 < \<bar>a\<bar> then Num 0 else if \<bar>a\<bar> = 1 then NaN else PosInf)
      | _ \<Rightarrow> Num 0)"

text \<open>\<^verbatim>\<open>x || 0\<close> on a Number: NaN and zero are falsy.\<close>

definition or0 :: "jsnum \<Rightarrow> jsnum" where
  "or0 x = (if x = NaN \<or> x = Num 0 then Num 0 else x)"

section \<open>\<^verbatim>\<open>src/utils/calculations.js\<close>\<close>

datatype error = Error string

text \<open>
  \<^verbatim>\<open>calculateMonthlyPayment(principal, annualRate, years)\<close>: the guard throws before
  anything is computed; a zero rate divides the principal evenly; otherwise the annuity
  formula.
\<close>

definition calculateMonthlyPayment :: "jsnum \<Rightarrow> jsnum \<Rightarrow> jsnum \<Rightarrow> error + jsnum" where
  "calculateMonthlyPayment principal' annualRate years =
     (if js_le principal' (Num 0) \<or> js_lt annualRate (Num 0) \<or> js_le years (Num 0)
      then Inl (Error ''Values must be positive'')
      else if js_eq annualRate (Num 0)
      then Inr (js_div principal' (js_mul years (Num 12)))
      else
        let monthlyRate = js_div (js_div annualRate (Num 100)) (Num 12);
            numberOfPayments = js_mul years (Num 12);
            monthlyPayment =
              js_div
                (js_mul principal'
                   (js_mul monthlyRate (js_pow (js_add (Num 1) monthlyRate) numberOfPayments)))
                (js_sub (js_pow (js_add (Num 1) monthlyRate) numberOfPayments) (Num 1))
        in Inr monthlyPayment)"

text \<open>
  One row of the schedule of \<^verbatim>\<open>generateAmortizationSchedule\<close>. A date is kept as the
  number of months after the start date.
\<close>

record payment_row =
  paymentNumber :: nat
  date :: nat
  monthlyPayment :: jsnum
  principalPayment :: jsnum
  interestPayment :: jsnum
  remainingBalance :: jsnum
  cumulativeInterest :: jsnum

text \<open>
  The \<^verbatim>\<open>while\<close> loop of \<^verbatim>\<open>generateAmortizationSchedule\<close>. The arguments after
  \<open>years\<close> are the variables the loop assigns. \<open>years\<close> is a finite number, so the
  bound \<open>years * 12 * 2\<close> on \<open>paymentNumber\<close> ends the loop.
\<close>

function schedule_loop ::
  "jsnum \<Rightarrow> jsnum \<Rightarrow> jsnum \<Rightarrow> real \<Rightarrow> jsnum \<Rightarrow> nat \<Rightarrow> nat \<Rightarrow> jsnum
     \<Rightarrow> payment_row list \<Rightarrow> payment_row list" where
  "schedule_loop monthlyRate monthlyPayment' extraPayment' years
       remainingBalance' paymentNumber' currentDate cumulativeInterest' schedule' =
     (if js_gt remainingBalance' (Num 0.01) \<and> real paymentNumber' \<le> years * 12 * 2 then
        let interestPayment = js_mul remainingBalance' monthlyRate;
            cumulativeInterest = js_add cumulativeInterest' interestPayment;
            principalPayment =
              js_min (js_add (js_sub monthlyPayment' interestPayment) extraPayment')
                remainingBalance';
            totalPayment = js_add interestPayment principalPayment;
            remainingBalance = js_sub remainingBalance' principalPayment;
            schedule = schedule' @
              [\<lparr>paymentNumber = paymentNumber',
                date = currentDate,
                monthlyPayment = totalPayment,
                principalPayment = principalPayment,
                interestPayment = interestPayment,
                remainingBalance = js_max (Num 0) remainingBalance,
                cumulativeInterest = cumulativeInterest\<rparr>]
        in schedule_loop monthlyRate monthlyPayment' extraPayment' years
             remainingBalance (paymentNumber' + 1) (currentDate + 1) cumulativeInterest schedule
      else schedule')"
  by pat_completeness auto
termination
  by (relation "measure (\<lambda>(monthlyRate, monthlyPayment', extraPayment', years,
        remainingBalance', paymentNumber', rest). nat \<lfloor>years * 12 * 2\<rfloor> + 1 - paymentNumber')")
    (auto dest!: le_nat_floor)

text \<open>
  The arguments of \<^verbatim>\<open>generateAmortizationSchedule\<close> are finite numbers. The error of
  \<open>calculateMonthlyPayment\<close> passes through.
\<close>

definition generateAmortizationSchedule ::
  "real \<Rightarrow> real \<Rightarrow> real \<Rightarrow> real \<Rightarrow> error + payment_row list" where
  "generateAmortizationSchedule principal' annualRate years extraPayment' =
     (let monthlyRate = js_div (js_div (Num annualRate) (Num 100)) (Num 12)
      in case calculateMonthlyPayment (Num principal') (Num annualRate) (Num years) of
           Inl e \<Rightarrow> Inl e
         | Inr monthlyPayment' \<Rightarrow>
             Inr (schedule_loop monthlyRate monthlyPayment' (Num extraPayment') years
                    (Num principal') 1 0 (Num 0) []))"


section \<open>\<^verbatim>\<open>src/pages/AmortizationSchedule.jsx\<close>\<close>

text \<open>
  The page has a generator of its own, also called \<^verbatim>\<open>generateAmortizationSchedule\<close>;
  here it is \<open>page_generateAmortizationSchedule\<close>. Its rows have two more fields, and
  their \<^verbatim>\<open>paymentDate\<close> is the field \<open>date\<close>.
\<close>

record page_row = payment_row +
  extraPayment :: jsnum
  cumulativePrincipal :: jsnum



text \<open>
  The \<^verbatim>\<open>for\<close> loop: \<open>i\<close> counts from 1 while \<open>i <= numberOfPayments\<close> and the
  balance is above \<open>0.01\<close>; the \<^verbatim>\<open>break\<close> at the end of the body leaves it as soon
  as the balance is at most \<open>0.01\<close>. The result is what the code reads after the loop:
  the schedule, \<open>periodicPayment\<close>, the two totals and \<open>actualPayments\<close>.
\<close>

function page_loop ::
  "real \<Rightarrow> jsnum \<Rightarrow> jsnum \<Rightarrow> real \<Rightarrow> nat \<Rightarrow> jsnum \<Rightarrow> jsnum \<Rightarrow> jsnum \<Rightarrow> jsnum \<Rightarrow> nat \<Rightarrow> nat
     \<Rightarrow> page_row list \<Rightarrow> page_row list \<times> jsnum \<times> jsnum \<times> jsnum \<times> nat" where
  "page_loop numberOfPayments periodicRate extraPayment' frequency i remainingBalance'
       periodicPayment totalInterestPaid totalPrincipalPaid actualPayments currentDate schedule' =
     (if real i \<le> numberOfPayments \<and> js_gt remainingBalance' (Num 0.01) then
        let interestPayment = js_mul remainingBalance' periodicRate;
            principalPayment = js_add (js_sub periodicPayment interestPayment) extraPayment';
            adjust = js_gt principalPayment remainingBalance';
            principalPayment = (if adjust then remainingBalance' else principalPayment);
            periodicPayment =
              (if adjust then js_add principalPayment interestPayment else periodicPayment);
            paymentDate = currentDate;
            remainingBalance = js_sub remainingBalance' principalPayment;
            totalInterestPaid = js_add totalInterestPaid interestPayment;
            totalPrincipalPaid = js_add totalPrincipalPaid principalPayment;
            actualPayments = actualPayments + 1;
            schedule = schedule' @
              [\<lparr>paymentNumber = i,
                date = paymentDate,
                monthlyPayment = periodicPayment,
                principalPayment = principalPayment,
                interestPayment = interestPayment,
                remainingBalance = js_max (Num 0) remainingBalance,
                cumulativeInterest = totalInterestPaid,
                extraPayment = extraPayment',
                cumulativePrincipal = totalPrincipalPaid\<rparr>];
            currentDate =
              (if frequency = 12 then currentDate + 1
               else if frequency = 4 then currentDate + 3
               else if frequency = 2 then currentDate + 6
               else currentDate + 12)
        in if js_le remainingBalance (Num 0.01)
           then (schedule, periodicPayment, totalInterestPaid, totalPrincipalPaid, actualPayments)
           else page_loop numberOfPayments periodicRate extraPayment' frequency (i + 1)
                  remainingBalance periodicPayment totalInterestPaid totalPrincipalPaid
                  actualPayments currentDate schedule
      else (schedule', periodicPayment, totalInterestPaid, totalPrincipalPaid, actualPayments))"
  by pat_completeness auto
termination
  by (relation "measure (\<lambda>(numberOfPayments, periodicRate, extraPayment', frequency, i, rest).
        nat \<lfloor>numberOfPayments\<rfloor> + 1 - i)")
    (auto dest!: le_nat_floor)

record generated =
  schedule :: "page_row list"
  summary :: "(string \<times> jsnum) list"
  payoffDate :: "nat option"


section \<open>\<^verbatim>\<open>src/pages/LoanCalculator.jsx\<close>\<close>

text \<open>
  The form state is an object of text fields. A field is \<open>None\<close> when its text is
  empty and \<open>Some v\<close> when it is not, \<open>v\<close> being what \<^verbatim>\<open>parseFloat\<close> makes of
  the text (NaN when it is no number). A result object is a list of keys and values.
\<close>

type_synonym formData = "string \<Rightarrow> jsnum option"

definition parseFloat :: "formData \<Rightarrow> string \<Rightarrow> jsnum" where
  "parseFloat formData k = (case formData k of None \<Rightarrow> NaN | Some v \<Rightarrow> v)"

definition required :: "formData \<Rightarrow> (string \<times> string) list \<Rightarrow> (string \<times> string) list" where
  "required formData ks = filter (\<lambda>(k, msg). formData k = None) ks"

datatype calculationType = CalcPayment | CalcAmount | CalcTerm | CalcRate

definition validateForm :: "calculationType \<Rightarrow> formData \<Rightarrow> (string \<times> string) list" where
  "validateForm calculationType formData =
     (case calculationType of
        CalcPayment \<Rightarrow> required formData
          [(''loanAmount'', ''Loan amount is required''),
           (''interestRate'', ''Interest rate is required''),
           (''loanTerm'', ''Loan term is required'')]
      | CalcAmount \<Rightarrow> required formData
          [(''monthlyPayment'', ''Monthly payment is required''),
           (''interestRate'', ''Interest rate is required''),
           (''loanTerm'', ''Loan term is required'')]
      | CalcTerm \<Rightarrow> required formData
          [(''loanAmount'', ''Loan amount is required''),
           (''monthlyPayment'', ''Monthly payment is required''),
           (''interestRate'', ''Interest rate is required'')]
      | CalcRate \<Rightarrow> required formData
          [(''loanAmount'', ''Loan amount is required''),
           (''monthlyPayment'', ''Monthly payment is required''),
           (''loanTerm'', ''Loan term is required'')])"

text \<open>
  The Newton-Raphson loop of the \<^verbatim>\<open>'rate'\<close> calculation: at most 100 rounds, left
  early (before \<open>rate\<close> is assigned) once two iterates are closer than \<open>0.000001\<close>.
\<close>

function rate_loop :: "jsnum \<Rightarrow> jsnum \<Rightarrow> jsnum \<Rightarrow> nat \<Rightarrow> jsnum \<Rightarrow> jsnum" where
  "rate_loop principal' payment numPayments i rate =
     (if i < 100 then
        let f = js_sub
                  (js_div
                     (js_mul (js_mul principal' rate) (js_pow (js_add (Num 1) rate) numPayments))
                     (js_sub (js_pow (js_add (Num 1) rate) numPayments) (Num 1)))
                  payment;
            df = js_div
                   (js_mul principal'
                      (js_sub
                         (js_mul (js_pow (js_add (Num 1) rate) numPayments)
                            (js_add (js_mul numPayments rate) (Num 1)))
                         (js_pow (js_add (Num 1) rate) numPayments)))
                   (js_pow (js_sub (js_pow (js_add (Num 1) rate) numPayments) (Num 1)) (Num 2));
            newRate = js_sub rate (js_div f df)
        in if js_lt (js_abs (js_sub newRate rate)) (Num 0.000001) then rate
           else rate_loop principal' payment numPayments (i + 1) newRate
      else rate)"
  by pat_completeness auto
termination
  by (relation "measure (\<lambda>(principal', payment, numPayments, i, rate). 100 - i)") auto

definition handleCalculate ::
  "calculationType \<Rightarrow> formData \<Rightarrow> (string \<times> string) list + (string \<times> jsnum) list" where
  "handleCalculate calculationType formData =
     (if validateForm calculationType formData \<noteq> [] then Inl (validateForm calculationType formData)
      else
        let principal' = or0 (parseFloat formData ''loanAmount'');
            rate = js_div (parseFloat formData ''interestRate'') (Num 100);
            years = parseFloat formData ''loanTerm'';
            payment = or0 (parseFloat formData ''monthlyPayment'');
            downPayment = or0 (parseFloat formData ''downPayment'');
            fees = or0 (parseFloat formData ''fees'');
            insurance = or0 (parseFloat formData ''insurance'');
            taxes = or0 (parseFloat formData ''taxes'')
        in case calculationType of
          CalcPayment \<Rightarrow>
            (case calculateMonthlyPayment principal' (js_mul rate (Num 100)) years of
               Inl e \<Rightarrow> Inl [(''general'', ''Calculation error. Please check your input data.'')]
             | Inr monthlyPayment' \<Rightarrow>
                 let monthlyPayment = monthlyPayment';
                     totalPayments = js_mul (js_mul monthlyPayment years) (Num 12);
                     totalInterest = js_sub totalPayments principal';
                     totalMonthlyPayment = js_add (js_add monthlyPayment insurance) taxes
                 in Inr [(''monthlyPayment'', monthlyPayment),
                         (''totalPayments'', totalPayments),
                         (''totalInterest'', totalInterest),
                         (''totalMonthlyPayment'', totalMonthlyPayment),
                         (''loanAmount'', principal'),
                         (''totalCost'', js_add totalPayments fees)])
        | CalcAmount \<Rightarrow>
            let monthlyRate = js_div rate (Num 12);
                numPayments = js_mul years (Num 12);
                maxLoanAmount =
                  (if js_eq monthlyRate (Num 0) then js_mul payment numPayments
                   else js_mul payment
                          (js_div
                             (js_sub (Num 1)
                                (js_pow (js_add (Num 1) monthlyRate) (js_neg numPayments)))
                             monthlyRate));
                maxPurchasePrice = js_add maxLoanAmount downPayment;
                totalPayments = js_mul payment numPayments;
                totalInterest = js_sub totalPayments maxLoanAmount;
                totalMonthlyPayment = js_add (js_add payment insurance) taxes
            in Inr [(''maxLoanAmount'', maxLoanAmount),
                    (''maxPurchasePrice'', maxPurchasePrice),
                    (''totalPayments'', totalPayments),
                    (''totalInterest'', totalInterest),
                    (''totalMonthlyPayment'', totalMonthlyPayment),
                    (''monthlyPayment'', payment),
                    (''totalCost'', js_add totalPayments fees)]
        | CalcTerm \<Rightarrow>
            let monthlyRate = js_div rate (Num 12);
                loanTermMonths =
                  (if js_eq monthlyRate (Num 0) then js_div principal' payment
                   else js_div
                          (js_neg
                             (js_log
                                (js_sub (Num 1) (js_div (js_mul principal' monthlyRate) payment))))
                          (js_log (js_add (Num 1) monthlyRate)));
                loanTerm = js_div loanTermMonths (Num 12);
                totalPayments = js_mul payment loanTermMonths;
                totalInterest = js_sub totalPayments principal';
                totalMonthlyPayment = js_add (js_add payment insurance) taxes
            in Inr [(''loanTerm'', loanTerm),
                    (''loanTermMonths'', loanTermMonths),
                    (''totalPayments'', totalPayments),
                    (''totalInterest'', totalInterest),
                    (''totalMonthlyPayment'', totalMonthlyPayment),
                    (''loanAmount'', principal'),
                    (''monthlyPayment'', payment),
                    (''totalCost'', js_add totalPayments fees)]
        | CalcRate \<Rightarrow>
            let numPayments = js_mul years (Num 12);
                rate = rate_loop principal' payment numPayments 0 (Num 0.01);
                annualRate = js_mul (js_mul rate (Num 12)) (Num 100);
                monthlyRate = js_mul rate (Num 100);
                totalPayments = js_mul payment numPayments;
                totalInterest = js_sub totalPayments principal';
                totalMonthlyPayment = js_add (js_add payment insurance) taxes
            in Inr [(''annualRate'', annualRate),
                    (''monthlyRate'', monthlyRate),
                    (''totalPayments'', totalPayments),
                    (''totalInterest'', totalInterest),
                    (''totalMonthlyPayment'', totalMonthlyPayment),
                    (''loanAmount'', principal'),
                    (''monthlyPayment'', payment),
                    (''totalCost'', js_add totalPayments fees)])"

section \<open>\<^verbatim>\<open>src/pages/TimeValueCalculator.jsx\<close>\<close>

datatype tvmType = PV | FV | PMT | RATE | NPER

definition tvm_validateForm :: "tvmType \<Rightarrow> formData \<Rightarrow> (string \<times> string) list" where
  "tvm_validateForm calculationType formData =
     (case calculationType of
        PV \<Rightarrow> required formData
          [(''futureValue'', ''Required''), (''interestRate'', ''Required''),
           (''periods'', ''Required'')]
      | FV \<Rightarrow> required formData
          [(''presentValue'', ''Required''), (''interestRate'', ''Required''),
           (''periods'', ''Required'')]
      | PMT \<Rightarrow>
          (if formData ''presentValue'' = None \<and> formData ''futureValue'' = None
           then [(''presentValue'', ''Either present value or future value is required'')]
           else [])
          @ required formData [(''interestRate'', ''Required''), (''periods'', ''Required'')]
      | RATE \<Rightarrow> required formData
          [(''presentValue'', ''Required''), (''futureValue'', ''Required''),
           (''periods'', ''Required'')]
      | NPER \<Rightarrow> required formData
          [(''presentValue'', ''Required''), (''futureValue'', ''Required''),
           (''interestRate'', ''Required'')])"

text \<open>
  The Newton-Raphson loop of \<^verbatim>\<open>case 'rate'\<close>: at most 100 rounds, left early
  (before \<open>r\<close> is assigned) once two iterates are closer than \<open>0.0001\<close>.
\<close>

function tvm_rate_loop :: "jsnum \<Rightarrow> jsnum \<Rightarrow> jsnum \<Rightarrow> nat \<Rightarrow> jsnum \<Rightarrow> jsnum" where
  "tvm_rate_loop pv fv nper i r =
     (if i < 100 then
        let f = js_sub (js_mul pv (js_pow (js_add (Num 1) r) nper)) fv;
            df = js_mul (js_mul pv nper) (js_pow (js_add (Num 1) r) (js_sub nper (Num 1)));
            newR = js_sub r (js_div f df)
        in if js_lt (js_abs (js_sub newR r)) (Num 0.0001) then r
           else tvm_rate_loop pv fv nper (i + 1) newR
      else r)"
  by pat_completeness auto
termination
  by (relation "measure (\<lambda>(pv, fv, nper, i, r). 100 - i)") auto

text \<open>
  \<^verbatim>\<open>calculate\<close> returns the \<^verbatim>\<open>value\<close> of the result it stores; the formula and
  explanation texts stored with it are display strings and are left out. Nothing inside
  its \<^verbatim>\<open>try\<close> block can throw. \<open>paymentTiming\<close> is the text of the timing field.
\<close>

definition calculate ::
  "tvmType \<Rightarrow> string \<Rightarrow> formData \<Rightarrow> (string \<times> string) list + jsnum" where
  "calculate calculationType paymentTiming formData =
     (if tvm_validateForm calculationType formData \<noteq> []
      then Inl (tvm_validateForm calculationType formData)
      else
        let pv = or0 (parseFloat formData ''presentValue'');
            fv = or0 (parseFloat formData ''futureValue'');
            pmt = or0 (parseFloat formData ''payment'');
            rate = js_div (parseFloat formData ''interestRate'') (Num 100);
            nper = or0 (parseFloat formData ''periods'');
            compounding = parseFloat formData ''compoundingFrequency'';
            type' = (if paymentTiming = ''beginning'' then Num 1 else Num 0)
        in case calculationType of
          PV \<Rightarrow>
            (if js_eq pmt (Num 0) then Inr (js_div fv (js_pow (js_add (Num 1) rate) nper))
             else
               let pvAnnuity =
                     js_mul
                       (js_mul pmt
                          (js_div (js_sub (Num 1) (js_pow (js_add (Num 1) rate) (js_neg nper)))
                             rate))
                       (js_add (Num 1) (js_mul rate type'));
                   pvLump = js_div fv (js_pow (js_add (Num 1) rate) nper)
               in Inr (js_add pvAnnuity pvLump))
        | FV \<Rightarrow>
            (if js_eq pmt (Num 0) then Inr (js_mul pv (js_pow (js_add (Num 1) rate) nper))
             else
               let fvAnnuity =
                     js_mul
                       (js_mul pmt
                          (js_div (js_sub (js_pow (js_add (Num 1) rate) nper) (Num 1)) rate))
                       (js_add (Num 1) (js_mul rate type'));
                   fvLump = js_mul pv (js_pow (js_add (Num 1) rate) nper)
               in Inr (js_add fvAnnuity fvLump))
        | PMT \<Rightarrow>
            (if js_eq fv (Num 0)
             then Inr (js_div (js_mul pv rate)
                         (js_sub (Num 1) (js_pow (js_add (Num 1) rate) (js_neg nper))))
             else Inr (js_div (js_mul fv rate)
                         (js_sub (js_pow (js_add (Num 1) rate) nper) (Num 1))))
        | RATE \<Rightarrow>
            (let r = tvm_rate_loop pv fv nper 0 (Num 0.1) in Inr (js_mul r (Num 100)))
        | NPER \<Rightarrow> Inr (js_div (js_log (js_div fv pv)) (js_log (js_add (Num 1) rate))))"

section \<open>The APR calculator (\<^verbatim>\<open>APRCalculator\<close>)\<close>

text \<open>\<^verbatim>\<open>parseInt\<close> of a field: the parsed number cut to its whole part.\<close>

definition parseInt :: "formData \<Rightarrow> string \<Rightarrow> jsnum" where
  "parseInt formData k =
     (case parseFloat formData k of
        Num a \<Rightarrow> Num (of_int (if 0 \<le> a then \<lfloor>a\<rfloor> else \<lceil>a\<rceil>))
      | _ \<Rightarrow> NaN)"

definition apr_validateForm :: "formData \<Rightarrow> (string \<times> string) list" where
  "apr_validateForm formData =
     (if formData ''loanAmount'' = None \<or> js_le (parseFloat formData ''loanAmount'') (Num 0)
      then [(''loanAmount'', ''Please enter loan amount'')] else [])
     @ (if formData ''interestRate'' = None \<or> js_lt (parseFloat formData ''interestRate'') (Num 0)
        then [(''interestRate'', ''Please enter interest rate'')] else [])
     @ (if formData ''loanTerm'' = None \<or> js_le (parseInt formData ''loanTerm'') (Num 0)
        then [(''loanTerm'', ''Please enter loan term'')] else [])"

text \<open>
  The search loop of \<^verbatim>\<open>calculateAPR\<close>: at most 100 rounds, each moving \<open>apr\<close> by
  \<open>0.0001\<close> towards the net loan amount, left early once the present value is within
  \<open>0.0001\<close> of it.
\<close>

function apr_loop :: "jsnum \<Rightarrow> jsnum \<Rightarrow> jsnum \<Rightarrow> nat \<Rightarrow> jsnum \<Rightarrow> jsnum" where
  "apr_loop monthlyPayment' numPayments netLoanAmount iteration apr =
     (if iteration < 100 then
        let monthlyAPR = js_div apr (Num 12);
            presentValue =
              js_mul monthlyPayment'
                (js_div
                   (js_sub (Num 1) (js_pow (js_add (Num 1) monthlyAPR) (js_neg numPayments)))
                   monthlyAPR)
        in if js_lt (js_abs (js_sub presentValue netLoanAmount)) (Num 0.0001) then apr
           else if js_gt presentValue netLoanAmount
           then apr_loop monthlyPayment' numPayments netLoanAmount (iteration + 1)
                  (js_add apr (Num 0.0001))
           else apr_loop monthlyPayment' numPayments netLoanAmount (iteration + 1)
                  (js_sub apr (Num 0.0001))
      else apr)"
  by pat_completeness auto
termination
  by (relation "measure (\<lambda>(monthlyPayment', numPayments, netLoanAmount, iteration, apr).
        100 - iteration)") auto

definition calculateAPR :: "formData \<Rightarrow> (string \<times> string) list + (string \<times> jsnum) list" where
  "calculateAPR formData =
     (if apr_validateForm formData \<noteq> [] then Inl (apr_validateForm formData)
      else
        let principal' = parseFloat formData ''loanAmount'';
            rate = js_div (parseFloat formData ''interestRate'') (Num 100);
            term = parseInt formData ''loanTerm'';
            fees = or0 (parseFloat formData ''fees'');
            points = or0 (parseFloat formData ''points'');
            monthlyRate = js_div rate (Num 12);
            numPayments = js_mul term (Num 12);
            monthlyPayment =
              js_div
                (js_mul principal'
                   (js_mul monthlyRate (js_pow (js_add (Num 1) monthlyRate) numPayments)))
                (js_sub (js_pow (js_add (Num 1) monthlyRate) numPayments) (Num 1));
            totalFees = js_add fees (js_div (js_mul points principal') (Num 100));
            netLoanAmount = js_sub principal' totalFees;
            apr = apr_loop monthlyPayment numPayments netLoanAmount 0 rate;
            totalInterest = js_sub (js_mul monthlyPayment numPayments) principal';
            totalCost = js_add (js_add principal' totalInterest) totalFees
        in Inr [(''monthlyPayment'', monthlyPayment),
                (''apr'', js_mul apr (Num 100)),
                (''totalInterest'', totalInterest),
                (''totalFees'', totalFees),
                (''totalCost'', totalCost),
                (''netLoanAmount'', netLoanAmount),
                (''effectiveRate'', js_mul apr (Num 100))])"

section \<open>Balances of a schedule\<close>


function schedule_balances :: "jsnum \<Rightarrow> jsnum \<Rightarrow> jsnum \<Rightarrow> real \<Rightarrow> jsnum \<Rightarrow> nat \<Rightarrow> jsnum list" where
  "schedule_balances monthlyRate monthlyPayment' extraPayment' years remainingBalance'
       paymentNumber' =
     (if js_gt remainingBalance' (Num 0.01) \<and> real paymentNumber' \<le> years * 12 * 2 then
        let interestPayment = js_mul remainingBalance' monthlyRate;
            principalPayment =
              js_min (js_add (js_sub monthlyPayment' interestPayment) extraPayment')
                remainingBalance';
            remainingBalance = js_sub remainingBalance' principalPayment
        in js_max (Num 0) remainingBalance #
           schedule_balances monthlyRate monthlyPayment' extraPayment' years remainingBalance
             (paymentNumber' + 1)
      else [])"
  by pat_completeness auto
termination
  by (relation "measure (\<lambda>(monthlyRate, monthlyPayment', extraPayment', years,
        remainingBalance', paymentNumber'). nat \<lfloor>years * 12 * 2\<rfloor> + 1 - paymentNumber')")
    (auto dest!: le_nat_floor)







section \<open>Closed forms\<close>

text \<open>The annuity payment on the reals, as \<open>calculateMonthlyPayment\<close> computes it.\<close>

definition annuity_payment :: "real \<Rightarrow> real \<Rightarrow> real \<Rightarrow> real" where
  "annuity_payment p r n = p * (r * (1 + r) powr n) / ((1 + r) powr n - 1)"

text \<open>
  The present value of \<open>n\<close> payments of \<open>m\<close> at periodic rate \<open>y\<close>, as the search loop
  of \<open>calculateAPR\<close> computes it.
\<close>

definition present_value :: "real \<Rightarrow> real \<Rightarrow> real \<Rightarrow> real" where
  "present_value m n y = m * ((1 - (1 + y) powr (- n)) / y)"


section \<open>Concrete inputs\<close>


text \<open>A rate calculation with a present value of 0: the derivative is 0 at every rate.\<close>

definition rate_form :: formData where
  "rate_form = [''presentValue'' \<mapsto> Num 0, ''futureValue'' \<mapsto> Num 100,
                ''periods'' \<mapsto> Num 10]"

text \<open>
  A future-value calculation of 1000 at 12 percent over one period, with the compounding
  frequency as the only thing left open.
\<close>

definition fv_form :: "real \<Rightarrow> formData" where
  "fv_form compoundingFrequency =
     [''presentValue'' \<mapsto> Num 1000, ''interestRate'' \<mapsto> Num 12, ''periods'' \<mapsto> Num 1,
      ''compoundingFrequency'' \<mapsto> Num compoundingFrequency]"

text \<open>The APR scenario: 100000 at 5 percent over 20 years, fees of 2000 and one point.\<close>

definition apr_form :: formData where
  "apr_form = [''loanAmount'' \<mapsto> Num 100000, ''interestRate'' \<mapsto> Num 5,
               ''loanTerm'' \<mapsto> Num 20, ''fees'' \<mapsto> Num 2000, ''points'' \<mapsto> Num 1]"


section \<open>Properties\<close>

subsection \<open>Arithmetic on finite numbers\<close>

declare js_pow.simps [simp del]

lemma js_sub_Num [simp]: "js_sub (Num a) (Num b) = Num (a - b)"
  by (simp add: js_sub_def)

lemma js_le_Num [simp]: "js_le (Num a) (Num b) = (a \<le> b)"
  by (auto simp: js_le_def)

lemma js_gt_Num [simp]: "js_gt (Num a) (Num b) = (b < a)"
  by (simp add: js_gt_def)

lemma js_ge_Num [simp]: "js_ge (Num a) (Num b) = (b \<le> a)"
  by (simp add: js_ge_def)

declare rate_loop.simps [simp del] tvm_rate_loop.simps [simp del] apr_loop.simps [simp del]
  schedule_loop.simps [simp del] page_loop.simps [simp del]

lemma js_add_NaN_right [simp]: "js_add x NaN = NaN"
  by (cases x) simp_all

lemma js_sub_NaN [simp]: "js_sub NaN y = NaN" "js_sub x NaN = NaN"
  by (simp_all add: js_sub_def)

lemma js_mul_NaN_right [simp]: "js_mul x NaN = NaN"
  by (cases x) simp_all

lemma js_div_NaN_right [simp]: "js_div x NaN = NaN"
  by (cases x) simp_all

lemma js_lt_NaN_right [simp]: "js_lt x NaN = False"
  by (cases x) simp_all

lemma js_pow_pos:
  assumes "0 < a"
  shows "js_pow (Num a) (Num b) = Num (a powr b)"
proof (cases "b = 0")
  case True
  then show ?thesis using assms by (simp add: js_pow.simps)
next
  case False
  show ?thesis
  proof (cases "whole b")
    case True
    then have "a powr b = a powr (of_int \<lfloor>b\<rfloor>)"
      unfolding whole_def by presburger
    also have "\<dots> = a powi \<lfloor>b\<rfloor>"
      using assms by (simp add: powr_real_of_int' power_int_def)
    finally show ?thesis
      using assms False True by (simp add: js_pow.simps finite_pow_def)
  next
    case False
    then show ?thesis
      using assms \<open>b \<noteq> 0\<close> by (simp add: js_pow.simps finite_pow_def)
  qed
qed

subsection \<open>The monthly payment covers the principal\<close>







subsection \<open>Payment and loan amount are inverse\<close>






subsection \<open>The loan term when the payment is too small\<close>





subsection \<open>The Newton-Raphson solvers at a zero derivative\<close>

lemma tvm_rate_loop_NaN: "tvm_rate_loop pv fv nper i NaN = NaN"
proof (induction "100 - i" arbitrary: i)
  case 0
  then show ?case by (simp add: tvm_rate_loop.simps)
next
  case (Suc k)
  then have "k = 100 - (i + 1)" and "i < 100" by simp_all
  then show ?case
    using Suc.hyps(1) [of "i + 1"] by (subst tvm_rate_loop.simps) (simp add: Let_def)
qed

lemma rate_loop_NaN: "rate_loop p pay n i NaN = NaN"
proof (induction "100 - i" arbitrary: i)
  case 0
  then show ?case by (simp add: rate_loop.simps)
next
  case (Suc k)
  then have "k = 100 - (i + 1)" and "i < 100" by simp_all
  then show ?case
    using Suc.hyps(1) [of "i + 1"] by (subst rate_loop.simps) (simp add: Let_def)
qed

lemma js_pow_PosInf [simp]: "0 < n \<Longrightarrow> js_pow PosInf (Num n) = PosInf"
  by (simp add: js_pow.simps)

lemma tvm_rate_zero_pv:
  assumes "0 < v" "0 < n"
  shows "tvm_rate_loop (Num 0) (Num v) (Num n) 0 (Num 0.1) = NaN"
proof -
  have "tvm_rate_loop (Num 0) (Num v) (Num n) 0 (Num 0.1)
        = tvm_rate_loop (Num 0) (Num v) (Num n) 1 PosInf"
    using assms by (subst tvm_rate_loop.simps) (simp add: Let_def js_pow_pos js_sub_def)
  also have "\<dots> = NaN"
    using assms by (subst tvm_rate_loop.simps) (simp add: Let_def tvm_rate_loop_NaN)
  finally show ?thesis .
qed

lemma rate_zero_principal:
  assumes "0 < pay" "0 < n"
  shows "rate_loop (Num 0) (Num pay) (Num n) 0 (Num 0.01) = NaN"
proof -
  have q: "1 < (101 / 100) powr n"
    using assms by (intro gr_one_powr) auto
  have "rate_loop (Num 0) (Num pay) (Num n) 0 (Num 0.01)
        = rate_loop (Num 0) (Num pay) (Num n) 1 PosInf"
    using assms q by (subst rate_loop.simps) (simp add: Let_def js_pow_pos js_sub_def)
  also have "\<dots> = NaN"
    using assms by (subst rate_loop.simps) (simp add: Let_def rate_loop_NaN)
  finally show ?thesis .
qed

text \<open>
  With a present value of 0 the derivative \<open>pv * nper * (1 + r) ^ (nper - 1)\<close> is 0.
  The solver does not stop: it divides by it, and the NaN that follows is the result.
\<close>

theorem newton_no_guard_counterexample:
  "calculate RATE ''end'' rate_form = Inr NaN"
  using tvm_rate_zero_pv [of 100 10]
  by (simp add: calculate_def tvm_validateForm_def required_def rate_form_def parseFloat_def
      or0_def Let_def)

text \<open>
  C7, amended. Neither Newton-Raphson solver checks the derivative, and neither raises.
  When the derivative is 0 at the first iterate (a present value of 0 in the
  time-value calculator, a loan amount of 0 in the loan calculator, the other inputs
  positive), the rate that is returned is NaN.
\<close>

theorem newton_no_guard:
  "(formData ''presentValue'' = Some (Num 0) \<and> formData ''futureValue'' = Some (Num v)
      \<and> formData ''periods'' = Some (Num n) \<and> 0 < v \<and> 0 < n
      \<longrightarrow> calculate RATE paymentTiming formData = Inr NaN)
   \<and> (formData ''loanAmount'' = Some (Num 0) \<and> formData ''monthlyPayment'' = Some (Num v)
      \<and> formData ''loanTerm'' = Some (Num n) \<and> 0 < v \<and> 0 < n
      \<longrightarrow> (\<exists>res. handleCalculate CalcRate formData = Inr res
             \<and> map_of res ''annualRate'' = Some NaN))"
proof (intro conjI impI)
  assume h: "formData ''presentValue'' = Some (Num 0) \<and> formData ''futureValue'' = Some (Num v)
      \<and> formData ''periods'' = Some (Num n) \<and> 0 < v \<and> 0 < n"
  then have "tvm_rate_loop (Num 0) (Num v) (Num n) 0 (Num 0.1) = NaN"
    by (intro tvm_rate_zero_pv) auto
  then show "calculate RATE paymentTiming formData = Inr NaN"
    using h by (simp add: calculate_def tvm_validateForm_def required_def parseFloat_def
        or0_def Let_def)
next
  assume h: "formData ''loanAmount'' = Some (Num 0) \<and> formData ''monthlyPayment'' = Some (Num v)
      \<and> formData ''loanTerm'' = Some (Num n) \<and> 0 < v \<and> 0 < n"
  then have "rate_loop (Num 0) (Num v) (Num (n * 12)) 0 (Num 0.01) = NaN"
    by (intro rate_zero_principal) auto
  then show "\<exists>res. handleCalculate CalcRate formData = Inr res
             \<and> map_of res ''annualRate'' = Some NaN"
    using h by (simp add: handleCalculate_def validateForm_def required_def parseFloat_def
        or0_def Let_def)
qed

theorem newton_no_guard_witness:
  "calculate RATE ''end'' rate_form = Inr NaN
   \<and> (\<exists>res. handleCalculate CalcRate
              [''loanAmount'' \<mapsto> Num 0, ''monthlyPayment'' \<mapsto> Num 100, ''loanTerm'' \<mapsto> Num 1]
            = Inr res \<and> map_of res ''annualRate'' = Some NaN)"
  using newton_no_guard [of rate_form 100 10 "''end''"]
    newton_no_guard [of "[''loanAmount'' \<mapsto> Num 0, ''monthlyPayment'' \<mapsto> Num 100, ''loanTerm'' \<mapsto> Num 1]" 100 1]
  by (simp add: rate_form_def)


subsection \<open>The compounding frequency\<close>

lemma calculate_ignores_compounding:
  "calculate calculationType paymentTiming (formData(''compoundingFrequency'' := c))
   = calculate calculationType paymentTiming formData"
  by (cases calculationType)
    (simp_all add: calculate_def tvm_validateForm_def required_def parseFloat_def Let_def)

text \<open>
  C9. The periodic rate is specified as the annual rate divided by 100 and by the
  compounding frequency. \<open>calculate\<close> divides by 100 only: 1000 at 12 percent over one
  period grows to 1120 whether the frequency is 12 or 1.
\<close>

theorem compounding_unused:
  "calculate FV ''end'' (fv_form 12) = Inr (Num 1120)
   \<and> calculate FV ''end'' (fv_form 1) = Inr (Num 1120)"
  by (simp add: calculate_def tvm_validateForm_def required_def parseFloat_def Let_def
      fv_form_def or0_def js_pow_pos)

subsection \<open>The required monthly contribution\<close>






subsection \<open>The amortization invariant\<close>



lemma schedule_loop_balances:
  "map remainingBalance (schedule_loop r m e y b i d c s)
   = map remainingBalance s @ schedule_balances r m e y b i"
proof (induction r m e y b i d c s rule: schedule_loop.induct)
  case (1 r m e y b i d c s)
  show ?case
    apply (subst schedule_loop.simps)
    apply (subst schedule_balances.simps)
    using 1
    apply (simp add: Let_def)
    done
qed











lemma js_min_Num [simp]: "js_min (Num a) (Num b) = Num (min a b)"
  by (simp add: js_min_def min_def)

lemma js_max_Num [simp]: "js_max (Num a) (Num b) = Num (max a b)"
  by (simp add: js_max_def max_def)


lemma schedule_balances_Num:
  "schedule_balances (Num r) (Num m) (Num e) y (Num x) i =
     (if 0.01 < x \<and> real i \<le> y * 12 * 2 then
        Num (max 0 (x - min (m - x * r + e) x)) #
        schedule_balances (Num r) (Num m) (Num e) y (Num (x - min (m - x * r + e) x)) (i + 1)
      else [])"
  by (subst schedule_balances.simps) (simp add: Let_def)








lemma or0_Num [simp]: "or0 (Num e) = Num e"
  by (simp add: or0_def)





text \<open>
  A negative extra payment makes the balance of \<^verbatim>\<open>calculations.js\<close> grow; the
  invariant needs an extra payment of at least 0.
\<close>

lemma negative_extra_payment:
  "generateAmortizationSchedule 1200 0 (1 / 12) (- 1300) =
     Inr [\<lparr>paymentNumber = 1, date = 0, monthlyPayment = Num (- 100),
            principalPayment = Num (- 100), interestPayment = Num 0,
            remainingBalance = Num 1300, cumulativeInterest = Num 0\<rparr>,
          \<lparr>paymentNumber = 2, date = 1, monthlyPayment = Num (- 100),
            principalPayment = Num (- 100), interestPayment = Num 0,
            remainingBalance = Num 1400, cumulativeInterest = Num 0\<rparr>]"
  by (simp add: generateAmortizationSchedule_def calculateMonthlyPayment_def
      schedule_loop.simps Let_def)



subsection \<open>The length of a schedule\<close>


text \<open>
  With a whole number of years a negative extra payment does the same: 1200 at rate 0
  over one year with an extra payment of \<open>-50\<close> takes 24 rows for 12 periods.
\<close>

lemma negative_extra_doubles_length:
  "\<exists>rows. generateAmortizationSchedule 1200 0 1 (- 50) = Inr rows \<and> length rows = 24"
proof -
  have "map remainingBalance
          (schedule_loop (Num 0) (Num 100) (Num (- 50)) 1 (Num 1200) 1 0 (Num 0) [])
        = map Num [1150, 1100, 1050, 1000, 950, 900, 850, 800, 750, 700, 650, 600, 550, 500,
                   450, 400, 350, 300, 250, 200, 150, 100, 50, 0]"
    unfolding schedule_loop_balances
    by (simp add: schedule_balances_Num)
  then have "length (schedule_loop (Num 0) (Num 100) (Num (- 50)) 1 (Num 1200) 1 0 (Num 0) [])
      = 24"
    using length_map [of remainingBalance
        "schedule_loop (Num 0) (Num 100) (Num (- 50)) 1 (Num 1200) 1 0 (Num 0) []"]
    by simp
  then show ?thesis
    by (simp add: generateAmortizationSchedule_def calculateMonthlyPayment_def)
qed










subsection \<open>The APR\<close>

lemma annuity_factor_sum:
  assumes "(a::real) \<noteq> 0"
  shows "((1 + a) ^ n - 1) / a = (\<Sum>i<n. (1 + a) ^ i)"
  using assms geometric_sum [of "1 + a" n] by simp

lemma annuity_factor_mono:
  assumes "0 < (a::real)" "a \<le> b"
  shows "((1 + a) ^ n - 1) / a \<le> ((1 + b) ^ n - 1) / b"
proof -
  have "(\<Sum>i<n. (1 + a) ^ i) \<le> (\<Sum>i<n. (1 + b) ^ i)"
    using assms by (intro sum_mono power_mono) auto
  then show ?thesis
    using assms by (simp add: annuity_factor_sum)
qed

lemma present_value_lower:
  assumes "0 < p" "0 < mr" "mr \<le> y" "0 < n"
  shows "p * (1 + real n * ((mr - y) / (1 + y)))
         \<le> present_value (annuity_payment p mr (real n)) (real n) y"
proof -
  define q where "q = (1 + mr) ^ n"
  define s where "s = (1 + y) ^ n"
  have y: "0 < y" using assms by simp
  have q: "1 < q" unfolding q_def using assms by simp
  have s: "1 < s" unfolding s_def using y assms by simp
  have pq: "(1 + mr) powr real n = q"
    using assms by (simp add: q_def powr_realpow)
  have ps: "(1 + y) powr (- real n) = 1 / s"
    using y by (simp add: s_def powr_minus powr_realpow divide_simps)
  define g where "g = (q - 1) / mr"
  define h where "h = (s - 1) / y"
  have gh: "g \<le> h" unfolding g_def h_def q_def s_def
    using assms by (intro annuity_factor_mono)
  have g: "0 < g" unfolding g_def using q assms by simp
  have pv: "present_value (annuity_payment p mr (real n)) (real n) y = p * (q / s) * (h / g)"
    unfolding present_value_def annuity_payment_def pq ps g_def h_def
    using q s y assms by (simp add: field_simps)
  have "1 \<le> h / g" using gh g by simp
  moreover have "0 \<le> p * (q / s)" using assms q s by simp
  ultimately have "p * (q / s) * 1 \<le> p * (q / s) * (h / g)"
    by (intro mult_left_mono)
  then have low: "p * (q / s) \<le> present_value (annuity_payment p mr (real n)) (real n) y"
    using pv by simp
  have ratio: "q / s = (1 + (mr - y) / (1 + y)) ^ n"
  proof -
    have "1 + (mr - y) / (1 + y) = (1 + mr) / (1 + y)"
      using y by (simp add: field_simps)
    then show ?thesis by (simp add: q_def s_def power_divide)
  qed
  have "- 1 \<le> (mr - y) / (1 + y)"
    using y assms by (simp add: field_simps)
  then have "1 + real n * ((mr - y) / (1 + y)) \<le> q / s"
    unfolding ratio by (rule Bernoulli_inequality)
  then have "p * (1 + real n * ((mr - y) / (1 + y))) \<le> p * (q / s)"
    using assms by (intro mult_left_mono) auto
  then show ?thesis using low by linarith
qed


lemma apr_loop_Num:
  assumes "0 < x"
  shows "apr_loop (Num m) (Num n) (Num net) it (Num x) =
     (if it < 100 then
        if \<bar>present_value m n (x / 12) - net\<bar> < 0.0001 then Num x
        else if net < present_value m n (x / 12)
        then apr_loop (Num m) (Num n) (Num net) (it + 1) (Num (x + 0.0001))
        else apr_loop (Num m) (Num n) (Num net) (it + 1) (Num (x - 0.0001))
      else Num x)"
  using assms
  by (subst apr_loop.simps) (simp add: Let_def js_pow_pos present_value_def)

lemma apr_loop_above:
  assumes c: "0 < c"
    and bound: "\<And>x. c \<le> x \<Longrightarrow> x \<le> c + 0.0001 \<Longrightarrow> net < present_value m n (x / 12)"
  shows "c \<le> x \<Longrightarrow> \<exists>x'. apr_loop (Num m) (Num n) (Num net) it (Num x) = Num x' \<and> c \<le> x'"
proof (induction "100 - it" arbitrary: it x)
  case 0
  then have "apr_loop (Num m) (Num n) (Num net) it (Num x) = Num x"
    using c by (subst apr_loop_Num) auto
  then show ?case using 0 by simp
next
  case (Suc k)
  have x: "0 < x" using c Suc.prems by simp
  have k: "k = 100 - (it + 1)" and it: "it < 100" using Suc.hyps(2) by simp_all
  show ?case
  proof (cases "\<bar>present_value m n (x / 12) - net\<bar> < 0.0001")
    case True
    then have "apr_loop (Num m) (Num n) (Num net) it (Num x) = Num x"
      using x by (subst apr_loop_Num) auto
    then show ?thesis using Suc.prems by simp
  next
    case False
    show ?thesis
    proof (cases "net < present_value m n (x / 12)")
      case True
      then have "apr_loop (Num m) (Num n) (Num net) it (Num x)
          = apr_loop (Num m) (Num n) (Num net) (it + 1) (Num (x + 0.0001))"
        using x it False by (subst apr_loop_Num) auto
      moreover have "c \<le> x + 0.0001" using Suc.prems by simp
      ultimately show ?thesis using Suc.hyps(1) [OF k] by simp
    next
      case down: False
      then have "\<not> x \<le> c + 0.0001" using bound [of x] Suc.prems by auto
      then have "c \<le> x - 0.0001" by simp
      moreover have "apr_loop (Num m) (Num n) (Num net) it (Num x)
          = apr_loop (Num m) (Num n) (Num net) (it + 1) (Num (x - 0.0001))"
        using x it False down by (subst apr_loop_Num) auto
      ultimately show ?thesis using Suc.hyps(1) [OF k] by simp
    qed
  qed
qed

lemma present_value_margin:
  assumes "0 < p" "0 < r" "r \<le> x" "x \<le> r + 0.0003" "0 < k"
  shows "p * (1 - real k * 0.0003)
         \<le> present_value (annuity_payment p (r / 12) (real (k * 12))) (real (k * 12)) (x / 12)"
proof -
  let ?n = "k * 12"
  let ?d = "(r / 12 - x / 12) / (1 + x / 12)"
  have "p * (1 + real ?n * ?d)
        \<le> present_value (annuity_payment p (r / 12) (real ?n)) (real ?n) (x / 12)"
    using assms by (intro present_value_lower) auto
  moreover have "- (0.0003 / 12) \<le> ?d"
  proof -
    have "(x / 12 - r / 12) / (1 + x / 12) \<le> (x / 12 - r / 12) / 1"
      using assms by (intro divide_left_mono) auto
    then show ?thesis using assms by (simp add: field_simps)
  qed
  then have "real ?n * (- (0.0003 / 12)) \<le> real ?n * ?d"
    by (intro mult_left_mono) auto
  then have "p * (1 + real ?n * (- (0.0003 / 12))) \<le> p * (1 + real ?n * ?d)"
    using assms(1) by (intro mult_left_mono) auto
  ultimately show ?thesis by (simp add: algebra_simps)
qed


lemma calculateAPR_result:
  assumes fd: "formData ''loanAmount'' = Some (Num p)" "formData ''interestRate'' = Some (Num a)"
      "formData ''loanTerm'' = Some (Num (real k))" "formData ''fees'' = Some (Num f)"
      "formData ''points'' = Some (Num pts)"
    and pos: "0 < p" "0 < a" "0 < k"
  shows "\<exists>res. calculateAPR formData = Inr res
      \<and> map_of res ''totalFees'' = Some (Num (f + pts * p / 100))
      \<and> map_of res ''netLoanAmount'' = Some (Num (p - (f + pts * p / 100)))
      \<and> map_of res ''apr'' =
          Some (js_mul
                  (apr_loop (Num (annuity_payment p (a / 100 / 12) (real k * 12)))
                     (Num (real k * 12)) (Num (p - (f + pts * p / 100))) 0 (Num (a / 100)))
                  (Num 100))"
proof -
  have valid: "apr_validateForm formData = []"
    using fd pos by (simp add: apr_validateForm_def parseFloat_def parseInt_def)
  have q: "1 < (1 + a / 100 / 12) powr (real k * 12)"
    using pos by (intro gr_one_powr) auto
  show ?thesis
    using q pos
    by (simp add: calculateAPR_def valid Let_def fd parseFloat_def parseInt_def js_pow_pos
        annuity_payment_def)
qed


lemma apr_above_nominal:
  assumes pos: "0 < p" "0 < r" "0 < k"
    and margin: "net + 0.0001 < p * (1 - real k * 0.0003)"
  shows "\<exists>x'. apr_loop (Num (annuity_payment p (r / 12) (real k * 12))) (Num (real k * 12))
                 (Num net) 0 (Num r) = Num x'
           \<and> r + 0.0001 \<le> x'"
proof -
  let ?n = "real k * 12"
  let ?m = "annuity_payment p (r / 12) ?n"
  have n: "?n = real (k * 12)" by simp
  have low: "p * (1 - real k * 0.0003) \<le> present_value ?m ?n (x / 12)"
    if "r \<le> x" "x \<le> r + 0.0003" for x
    unfolding n using pos that by (intro present_value_margin) auto
  have first: "net + 0.0001 < present_value ?m ?n (r / 12)"
    using low [of r] margin by simp
  then have "apr_loop (Num ?m) (Num ?n) (Num net) 0 (Num r)
      = apr_loop (Num ?m) (Num ?n) (Num net) (0 + 1) (Num (r + 0.0001))"
    using pos(2) by (subst apr_loop_Num) auto
  moreover have "\<exists>x'. apr_loop (Num ?m) (Num ?n) (Num net) (0 + 1) (Num (r + 0.0001)) = Num x'
      \<and> r + 0.0001 \<le> x'"
  proof (rule apr_loop_above)
    show "0 < r + 0.0001" using pos(2) by simp
    show "net < present_value ?m ?n (x / 12)"
      if "r + 0.0001 \<le> x" "x \<le> r + 0.0001 + 0.0001" for x
      using low [of x] that margin by simp
    show "r + 0.0001 \<le> r + 0.0001" by simp
  qed
  ultimately show ?thesis by simp
qed

text \<open>
  C6. \<open>calculateAPR\<close> computes \<open>totalFees = fees + points * principal / 100\<close> and
  \<open>netLoanAmount = principal - totalFees\<close>; for a principal of 100000 at a nominal 5
  percent over 20 years with fees of 2000 and one point, the net loan amount is 97000 and
  the APR is strictly above 5 percent.
\<close>

theorem apr_fees_and_scenario:
  "(formData ''loanAmount'' = Some (Num p) \<and> formData ''interestRate'' = Some (Num a)
      \<and> formData ''loanTerm'' = Some (Num t) \<and> formData ''fees'' = Some (Num f)
      \<and> formData ''points'' = Some (Num pts) \<and> 0 < p \<and> 0 \<le> a \<and> 1 \<le> t
    \<longrightarrow> (\<exists>res. calculateAPR formData = Inr res
          \<and> map_of res ''totalFees'' = Some (Num (f + pts * p / 100))
          \<and> map_of res ''netLoanAmount'' = Some (Num (p - (f + pts * p / 100)))))
   \<and> (\<exists>res apr. calculateAPR apr_form = Inr res
          \<and> map_of res ''netLoanAmount'' = Some (Num 97000)
          \<and> map_of res ''apr'' = Some (Num apr) \<and> 5 < apr)"
proof (intro conjI impI)
  assume h: "formData ''loanAmount'' = Some (Num p) \<and> formData ''interestRate'' = Some (Num a)
      \<and> formData ''loanTerm'' = Some (Num t) \<and> formData ''fees'' = Some (Num f)
      \<and> formData ''points'' = Some (Num pts) \<and> 0 < p \<and> 0 \<le> a \<and> 1 \<le> t"
  then have "1 \<le> \<lfloor>t\<rfloor>" by linarith
  then have "apr_validateForm formData = []"
    using h by (simp add: apr_validateForm_def parseFloat_def parseInt_def)
  then show "\<exists>res. calculateAPR formData = Inr res
          \<and> map_of res ''totalFees'' = Some (Num (f + pts * p / 100))
          \<and> map_of res ''netLoanAmount'' = Some (Num (p - (f + pts * p / 100)))"
    using h by (simp add: calculateAPR_def Let_def parseFloat_def)
next
  obtain res where res: "calculateAPR apr_form = Inr res"
    "map_of res ''netLoanAmount'' = Some (Num (100000 - (2000 + 1 * 100000 / 100)))"
    "map_of res ''apr'' =
       Some (js_mul
               (apr_loop (Num (annuity_payment 100000 (5 / 100 / 12) (real 20 * 12)))
                  (Num (real 20 * 12)) (Num (100000 - (2000 + 1 * 100000 / 100))) 0
                  (Num (5 / 100)))
               (Num 100))"
    using calculateAPR_result [of apr_form 100000 5 20 2000 1]
    by (auto simp: apr_form_def)
  obtain x' where x': "apr_loop (Num (annuity_payment 100000 (5 / 100 / 12) (real 20 * 12)))
        (Num (real 20 * 12)) (Num (100000 - (2000 + 1 * 100000 / 100))) 0 (Num (5 / 100)) = Num x'"
      "5 / 100 + 0.0001 \<le> x'"
    using apr_above_nominal [of 100000 "5 / 100" 20 "100000 - (2000 + 1 * 100000 / 100)"]
    by auto
  have "map_of res ''apr'' = Some (Num (x' * 100))"
    unfolding res(3) x'(1) by simp
  moreover have "5 < x' * 100" using x'(2) by simp
  moreover have "map_of res ''netLoanAmount'' = Some (Num 97000)"
    using res(2) by simp
  ultimately show "\<exists>res apr. calculateAPR apr_form = Inr res
          \<and> map_of res ''netLoanAmount'' = Some (Num 97000)
          \<and> map_of res ''apr'' = Some (Num apr) \<and> 5 < apr"
    using res(1) by blast
qed

theorem apr_fees_and_scenario_witness:
  "\<exists>res. calculateAPR apr_form = Inr res
      \<and> map_of res ''totalFees'' = Some (Num 3000)
      \<and> map_of res ''netLoanAmount'' = Some (Num 97000)"
  using apr_fees_and_scenario [of apr_form 100000 5 20 2000 1]
  by (simp add: apr_form_def)


subsection \<open>The guard of calculateMonthlyPayment\<close>

text \<open>
  C5. \<open>calculateMonthlyPayment\<close> raises exactly when the principal is at most 0, the
  annual rate is below 0 or the number of years is at most 0; on every other input it
  returns a value.
\<close>

theorem calculateMonthlyPayment_raises_iff:
  "((\<exists>e. calculateMonthlyPayment (Num p) (Num annualRate) (Num years) = Inl e)
      = (p \<le> 0 \<or> annualRate < 0 \<or> years \<le> 0))
   \<and> ((\<exists>v. calculateMonthlyPayment (Num p) (Num annualRate) (Num years) = Inr v)
      = (0 < p \<and> 0 \<le> annualRate \<and> 0 < years))"
  by (auto simp: calculateMonthlyPayment_def Let_def)

theorem calculateMonthlyPayment_raises_iff_witness:
  "(\<exists>e. calculateMonthlyPayment (Num 0) (Num 5) (Num 30) = Inl e)
   \<and> (\<exists>v. calculateMonthlyPayment (Num 100000) (Num 6) (Num 30) = Inr v)"
  using calculateMonthlyPayment_raises_iff [of 0 5 30]
    calculateMonthlyPayment_raises_iff [of 100000 6 30]
  by simp

end
